theory Spec2Isabelle
  imports Complex_Main "HOL-Library.Sublist"
begin

section \<open>Static tables (lib/champions)\<close>

text \<open>
  The exported constant arrays of the champions module, as lists of strings in the
  order of the source.
\<close>

definition CHAMPIONS :: "string list" where
  "CHAMPIONS =
    [''Aatrox'', ''Ahri'', ''Akali'', ''Akshan'', ''Alistar'', ''Amumu'', ''Anivia'', ''Annie'', ''Aphelios'', ''Ashe'',
     ''AurelionSol'', ''Azir'', ''Bard'', ''BelVeth'', ''Blitzcrank'', ''Brand'', ''Braum'', ''Briar'', ''Caitlyn'', ''Camille'',
     ''Cassiopeia'', ''ChoGath'', ''Corki'', ''Darius'', ''Diana'', ''DrMundo'', ''Draven'', ''Ekko'', ''Elise'', ''Evelynn'',
     ''Ezreal'', ''Fiddlesticks'', ''Fiora'', ''Fizz'', ''Galio'', ''Gangplank'', ''Garen'', ''Gnar'', ''Gragas'', ''Graves'',
     ''Gwen'', ''Hecarim'', ''Heimerdinger'', ''Hwei'', ''Illaoi'', ''Irelia'', ''Ivern'', ''Janna'', ''JarvanIV'', ''Jax'',
     ''Jayce'', ''Jhin'', ''Jinx'', ''KSante'', ''KaiSa'', ''Kalista'', ''Karma'', ''Karthus'', ''Kassadin'', ''Katarina'',
     ''Kayle'', ''Kayn'', ''Kennen'', ''KhaZix'', ''Kindred'', ''Kled'', ''KogMaw'', ''LeBlanc'', ''LeeSin'', ''Leona'',
     ''Lillia'', ''Lissandra'', ''Lucian'', ''Lulu'', ''Lux'', ''Malphite'', ''Malzahar'', ''Maokai'', ''MasterYi'', ''MissFortune'',
     ''Mordekaiser'', ''Morgana'', ''Nami'', ''Nasus'', ''Nautilus'', ''Neeko'', ''Nidalee'', ''Nilah'', ''Nocturne'', ''Nunu'',
     ''Olaf'', ''Orianna'', ''Ornn'', ''Pantheon'', ''Poppy'', ''Pyke'', ''Qiyana'', ''Quinn'', ''Rakan'', ''Rammus'',
     ''RekSai'', ''Rell'', ''Renata'', ''Renekton'', ''Rengar'', ''Riven'', ''Rumble'', ''Ryze'', ''Samira'', ''Sejuani'',
     ''Senna'', ''Seraphine'', ''Sett'', ''Shaco'', ''Shen'', ''Shyvana'', ''Singed'', ''Sion'', ''Sivir'', ''Skarner'',
     ''Smolder'', ''Sona'', ''Soraka'', ''Swain'', ''Sylas'', ''Syndra'', ''TahmKench'', ''Taliyah'', ''Talon'', ''Taric'',
     ''Teemo'', ''Thresh'', ''Tristana'', ''Trundle'', ''Tryndamere'', ''TwistedFate'', ''Twitch'', ''Udyr'', ''Urgot'', ''Varus'',
     ''Vayne'', ''Veigar'', ''VelKoz'', ''Vex'', ''Vi'', ''Viego'', ''Viktor'', ''Vladimir'', ''Volibear'', ''Warwick'',
     ''Wukong'', ''Xayah'', ''Xerath'', ''XinZhao'', ''Yasuo'', ''Yone'', ''Yorick'', ''Yuumi'', ''Zac'', ''Zed'',
     ''Zeri'', ''Ziggs'', ''Zilean'', ''Zoe'', ''Zyra'']"

definition ROLES :: "string list" where
  "ROLES = [''Top'', ''Jungle'', ''Mid'', ''ADC'', ''Support'']"

definition SUMMONER_SPELLS :: "string list" where
  "SUMMONER_SPELLS =
     [''Flash'', ''Ignite'', ''Teleport'', ''Barrier'', ''Exhaust'', ''Cleanse'', ''Ghost'', ''Heal'']"

definition POSITIONS :: "string list" where
  "POSITIONS = [''under_tower'', ''safe'', ''middle'', ''extended'', ''river'']"

definition WAVE_POSITIONS :: "string list" where
  "WAVE_POSITIONS =
     [''frozen_near_me'', ''pushing_to_me'', ''middle'', ''slow_push_to_them'', ''crashed'']"

definition ENEMY_JG_LOCATIONS :: "string list" where
  "ENEMY_JG_LOCATIONS = [''topside'', ''botside'', ''mid'', ''unknown'']"

section \<open>Strings\<close>

text \<open>
  \<open>String.prototype.toLowerCase\<close> on strings of 8-bit characters: the letters
  \<open>A\<close> to \<open>Z\<close> are mapped to \<open>a\<close> to \<open>z\<close>, every other character is kept (the case
  mapping of characters outside ASCII is not modelled; all strings of the tables above
  are ASCII). \<open>String.prototype.includes\<close> is the substring test; the empty string is
  included in every string.
\<close>

definition lower_char :: "char \<Rightarrow> char" where
  "lower_char c =
     (case map_of (zip ''ABCDEFGHIJKLMNOPQRSTUVWXYZ'' ''abcdefghijklmnopqrstuvwxyz'') c of
        Some d \<Rightarrow> d
      | None \<Rightarrow> c)"

definition toLowerCase :: "string \<Rightarrow> string" where
  "toLowerCase s = map lower_char s"

fun includes_str :: "string \<Rightarrow> string \<Rightarrow> bool" where
  "includes_str [] t = (t = [])"
| "includes_str (c # cs) t = (prefix t (c # cs) \<or> includes_str cs t)"

section \<open>Numbers\<close>

text \<open>
  A JavaScript number is a double. The finite doubles are rationals, so a number is
  modelled as a \<^typ>\<open>rat\<close>, and every arithmetic operator computes the exact result and
  then rounds it to a double. The rounding function \<open>rnd\<close> is a parameter of the model:
  the theorems assume of it only what round-to-nearest satisfies (it is monotone, it keeps
  a double as it is, \<open>0\<close> and \<open>1\<close> are doubles), and the identity, which is exact
  arithmetic, is one instance. Comparisons are exact. Infinities and NaN are outside the
  model.
\<close>

type_synonym number = rat

definition rounding :: "(number \<Rightarrow> number) \<Rightarrow> bool" where
  "rounding rnd \<longleftrightarrow>
     (\<forall>x y. x \<le> y \<longrightarrow> rnd x \<le> rnd y) \<and> (\<forall>x. rnd (rnd x) = rnd x) \<and>
     rnd 0 = 0 \<and> rnd 1 = 1"

definition fadd :: "(number \<Rightarrow> number) \<Rightarrow> number \<Rightarrow> number \<Rightarrow> number" where
  "fadd rnd a b = rnd (a + b)"

definition fsub :: "(number \<Rightarrow> number) \<Rightarrow> number \<Rightarrow> number \<Rightarrow> number" where
  "fsub rnd a b = rnd (a - b)"

definition fmul :: "(number \<Rightarrow> number) \<Rightarrow> number \<Rightarrow> number \<Rightarrow> number" where
  "fmul rnd a b = rnd (a * b)"

definition fdiv :: "(number \<Rightarrow> number) \<Rightarrow> number \<Rightarrow> number \<Rightarrow> number" where
  "fdiv rnd a b = rnd (a / b)"

text \<open>
  Between \<open>2^16\<close> and \<open>2^17\<close> the doubles are the multiples of \<open>2^-36\<close>, so
  round-to-nearest moves a value of that range by at most \<open>2^-37\<close>. A value returned by
  \<open>Math.random()\<close> is a double \<open>u\<close> with \<open>0 \<le> u < 1\<close>; the largest double below
  \<open>1\<close> is \<open>1 - 2^-53\<close>.
\<close>

definition half_ulp_near_1e5 :: "(number \<Rightarrow> number) \<Rightarrow> bool" where
  "half_ulp_near_1e5 rnd \<longleftrightarrow>
     (\<forall>x. 65536 \<le> x \<and> x \<le> 131072 \<longrightarrow> \<bar>rnd x - x\<bar> \<le> 1 / 2 ^ 37)"

definition is_random_draw :: "number \<Rightarrow> bool" where
  "is_random_draw u \<longleftrightarrow> 0 \<le> u \<and> u \<le> 1 - 1 / 2 ^ 53"

section \<open>ConfidenceMeter\<close>

text \<open>
  The match of the label against the regular expression "one or more digits, then
  \<open>%\<close>": the leftmost non-empty maximal run of the digits \<open>0\<close> to \<open>9\<close> that is directly
  followed by \<open>%\<close>. The result is that run (capture group 1), or \<open>None\<close> when nothing
  matches. \<open>match_pct run s\<close> scans \<open>s\<close> from the left, \<open>run\<close> being the digits read
  since the last character that was not a digit. \<open>parseInt\<close> of such a run is its decimal
  value (taken exactly, also beyond \<open>2^53\<close>).
\<close>

definition is_digit :: "char \<Rightarrow> bool" where
  "is_digit c \<longleftrightarrow> c \<in> set ''0123456789''"

definition digit_val :: "char \<Rightarrow> nat" where
  "digit_val c = (of_char c :: nat) - 48"

fun match_pct :: "string \<Rightarrow> string \<Rightarrow> string option" where
  "match_pct run [] = None"
| "match_pct run (c # cs) =
     (if is_digit c then match_pct (run @ [c]) cs
      else if c = CHR ''%'' \<and> run \<noteq> [] then Some run
      else match_pct [] cs)"

definition parseInt :: "string \<Rightarrow> nat" where
  "parseInt ds = foldl (\<lambda>a c. 10 * a + digit_val c) 0 ds"

definition pct_of_label :: "string \<Rightarrow> nat" where
  "pct_of_label label =
     (case match_pct [] label of Some m \<Rightarrow> parseInt m | None \<Rightarrow> 50)"

definition color_of_pct :: "nat \<Rightarrow> string" where
  "color_of_pct pct =
     (if pct \<ge> 60 then ''bg-[#3fb950]''
      else if pct \<ge> 35 then ''bg-[#d29922]''
      else ''bg-[#f85149]'')"

text \<open>
  What the component renders from its label: the label text, the colour class of the
  bar, and the number \<open>pct\<close> of the bar's style \<open>width: pct%\<close>.
\<close>

record meter_view =
  shown_label :: string
  bar_color :: string
  bar_width_pct :: nat

definition ConfidenceMeter :: "string \<Rightarrow> meter_view" where
  "ConfidenceMeter label =
     (let pct = pct_of_label label
      in \<lparr>shown_label = label, bar_color = color_of_pct pct, bar_width_pct = pct\<rparr>)"

text \<open>
  The three colour classes as buckets in increasing order: red (the \<open>#f85149\<close> class) is
  \<open>0\<close>, amber (\<open>#d29922\<close>) is \<open>1\<close>, green (\<open>#3fb950\<close>) is \<open>2\<close>.
\<close>

definition bucket_rank :: "string \<Rightarrow> nat" where
  "bucket_rank cls =
     (if cls = ''bg-[#3fb950]'' then 2 else if cls = ''bg-[#d29922]'' then 1 else 0)"

text \<open>A label contains a non-empty string of digits directly followed by \<open>%\<close>.\<close>

definition digits_then_pct :: "string \<Rightarrow> bool" where
  "digits_then_pct s \<longleftrightarrow>
     (\<exists>pre ds post. s = pre @ ds @ CHR ''%'' # post \<and> ds \<noteq> [] \<and> list_all is_digit ds)"

section \<open>ChampionInput\<close>

text \<open>
  The suggestion list \<open>filtered\<close> of the component, from its \<open>value\<close> property and its
  \<open>filter\<close> state: \<open>filter || value\<close> is \<open>filter\<close> unless that is the empty string.
\<close>

definition filtered :: "string \<Rightarrow> string \<Rightarrow> string list" where
  "filtered val flt =
     take 8 (filter (\<lambda>c. includes_str (toLowerCase c)
                           (toLowerCase (if flt \<noteq> [] then flt else val))) CHAMPIONS)"

section \<open>Simulate page\<close>

record Pick =
  champion_id :: string
  role :: string

definition DEFAULTS_blue :: "string list" where
  "DEFAULTS_blue = [''Renekton'', ''LeeSin'', ''Ahri'', ''Jinx'', ''Thresh'']"

definition DEFAULTS_red :: "string list" where
  "DEFAULTS_red = [''Gnar'', ''Viego'', ''Syndra'', ''Kaisa'', ''Nautilus'']"

text \<open>
  The state of the page that a request is built from: the two team names and the two
  drafts. The initial drafts are \<open>ROLES.map((r, i) => ({champion_id: DEFAULTS.side[i],
  role: r.toLowerCase()}))\<close>.
\<close>

record simulate_page =
  blueTeam :: string
  redTeam :: string
  blue :: "Pick list"
  red :: "Pick list"

definition initial_draft :: "string list \<Rightarrow> Pick list" where
  "initial_draft defaults =
     map (\<lambda>(i, r). \<lparr>champion_id = defaults ! i, role = toLowerCase r\<rparr>) (enumerate 0 ROLES)"

definition SimulatePage_init :: simulate_page where
  "SimulatePage_init =
     \<lparr>blueTeam = ''T1'', redTeam = ''Gen.G'',
      blue = initial_draft DEFAULTS_blue, red = initial_draft DEFAULTS_red\<rparr>"

datatype side = Blue | Red

text \<open>
  \<open>updatePick\<close> replaces the draft of one side by
  \<open>prev.map((p, i) => i === idx ? {...p, champion_id: champ} : p)\<close>.
\<close>

definition set_champion :: "nat \<Rightarrow> string \<Rightarrow> Pick list \<Rightarrow> Pick list" where
  "set_champion idx champ prev =
     map (\<lambda>(i, p). if i = idx then p\<lparr>champion_id := champ\<rparr> else p) (enumerate 0 prev)"

definition updatePick :: "side \<Rightarrow> nat \<Rightarrow> string \<Rightarrow> simulate_page \<Rightarrow> simulate_page" where
  "updatePick sd idx champ pg =
     (case sd of
        Blue \<Rightarrow> pg\<lparr>blue := set_champion idx champ (blue pg)\<rparr>
      | Red \<Rightarrow> pg\<lparr>red := set_champion idx champ (red pg)\<rparr>)"

definition setBlueTeam :: "string \<Rightarrow> simulate_page \<Rightarrow> simulate_page" where
  "setBlueTeam v pg = pg\<lparr>blueTeam := v\<rparr>"

definition setRedTeam :: "string \<Rightarrow> simulate_page \<Rightarrow> simulate_page" where
  "setRedTeam v pg = pg\<lparr>redTeam := v\<rparr>"

text \<open>
  The states the page can be in: the initial one, and those reached by editing a team
  name or by \<open>updatePick\<close>, the only writers of these four state variables.
\<close>

inductive reachable :: "simulate_page \<Rightarrow> bool" where
  reach_init: "reachable SimulatePage_init"
| reach_blueTeam: "reachable pg \<Longrightarrow> reachable (setBlueTeam v pg)"
| reach_redTeam: "reachable pg \<Longrightarrow> reachable (setRedTeam v pg)"
| reach_updatePick: "reachable pg \<Longrightarrow> reachable (updatePick sd idx champ pg)"

text \<open>
  The body that \<open>run\<close> passes to \<open>simulate\<close>; \<open>u\<close> is the value of \<open>Math.random()\<close>.
\<close>

record simulate_request =
  blue_team_id :: string
  red_team_id :: string
  blue_draft :: "Pick list"
  red_draft :: "Pick list"
  seed :: int

definition run :: "(number \<Rightarrow> number) \<Rightarrow> number \<Rightarrow> simulate_page \<Rightarrow> simulate_request" where
  "run rnd u pg =
     \<lparr>blue_team_id = blueTeam pg, red_team_id = redTeam pg,
      blue_draft = blue pg, red_draft = red pg,
      seed = \<lfloor>fmul rnd u 100000\<rfloor>\<rparr>"

text \<open>A draft has exactly 5 picks with pairwise distinct roles.\<close>

definition draft_valid :: "Pick list \<Rightarrow> bool" where
  "draft_valid d \<longleftrightarrow> length d = 5 \<and> distinct (map role d)"

section \<open>Coach page\<close>

text \<open>
  The game-state object \<open>gs\<close> of the page (its fields carry the prefix \<open>gs_\<close> here), and
  the lane-state object that \<open>runAnalysis\<close> builds from it and sends.
\<close>

record GameState =
  gs_my_hp_pct :: number
  gs_enemy_hp_pct :: number
  gs_my_level :: number
  gs_enemy_level :: number
  gs_wave_position :: string
  gs_my_position :: string
  gs_game_time :: number
  gs_my_mana_pct :: number

record LaneState =
  my_champion_id :: string
  my_hp :: number
  my_hp_max :: number
  my_mana :: number
  my_mana_max :: number
  my_level :: number
  my_xp_to_next :: number
  my_q_cd :: number
  my_w_cd :: number
  my_e_cd :: number
  my_r_cd :: number
  my_flash_cd :: number
  my_summ2_cd :: number
  my_summ2_type :: string
  my_position :: string
  my_gold :: number
  my_items :: "string list"
  my_combat_power :: number
  enemy_champion_id :: string
  enemy_hp :: number
  enemy_hp_max :: number
  enemy_mana_est :: number
  enemy_level :: number
  enemy_q_cd_est :: number
  enemy_w_cd_est :: number
  enemy_e_cd_est :: number
  enemy_r_cd_est :: number
  enemy_flash_cd_est :: number
  enemy_position :: string
  enemy_combat_power :: number
  my_minions :: number
  enemy_minions :: number
  wave_position :: string
  is_cannon_wave :: bool
  enemy_jg_last_seen :: number
  enemy_jg_location :: string
  ally_jg_position :: string
  dragon_timer :: number
  herald_timer :: number
  my_tower_hp :: number
  enemy_tower_hp :: number
  game_time :: number
  phase :: string

text \<open>The state variables of the page that \<open>runAnalysis\<close> reads, with their initial values.\<close>

record coach_page =
  myChamp :: string
  myRole :: string
  enemyChamp :: string
  enemyRole :: string
  summ2 :: string
  enemyModel :: string
  iterations :: number
  gs :: GameState

record recommend_request =
  req_state :: LaneState
  req_iterations :: number
  req_enemy_model :: string

definition CoachPage_init :: coach_page where
  "CoachPage_init =
     \<lparr>myChamp = ''Ahri'', myRole = ''Mid'', enemyChamp = ''Syndra'', enemyRole = ''Mid'',
      summ2 = ''Ignite'', enemyModel = ''average'', iterations = 1000,
      gs = \<lparr>gs_my_hp_pct = 80, gs_enemy_hp_pct = 75, gs_my_level = 3, gs_enemy_level = 3,
            gs_wave_position = ''middle'', gs_my_position = ''middle'', gs_game_time = 210,
            gs_my_mana_pct = 70\<rparr>\<rparr>"

definition lane_state :: "(number \<Rightarrow> number) \<Rightarrow> coach_page \<Rightarrow> LaneState" where
  "lane_state rnd pg =
     (let g = gs pg;
          hpMax = fadd rnd 570 (fmul rnd (fsub rnd (gs_my_level g) 1) 90);
          enemyHpMax = fadd rnd 523 (fmul rnd (fsub rnd (gs_enemy_level g) 1) 85);
          manaMax = fadd rnd 418 (fmul rnd (fsub rnd (gs_my_level g) 1) 25)
      in \<lparr>my_champion_id = myChamp pg,
          my_hp = fmul rnd (fdiv rnd (gs_my_hp_pct g) 100) hpMax,
          my_hp_max = hpMax,
          my_mana = fmul rnd (fdiv rnd (gs_my_mana_pct g) 100) manaMax,
          my_mana_max = manaMax,
          my_level = gs_my_level g,
          my_xp_to_next = 280,
          my_q_cd = 0, my_w_cd = 0, my_e_cd = 0,
          my_r_cd = (if gs_my_level g \<ge> 6 then 0 else 80),
          my_flash_cd = 0, my_summ2_cd = 0,
          my_summ2_type = toLowerCase (summ2 pg),
          my_position = gs_my_position g,
          my_gold = fadd rnd 500 (fmul rnd (gs_game_time g) 2),
          my_items = [],
          my_combat_power = fadd rnd 100 (fmul rnd (gs_my_level g) 15),
          enemy_champion_id = enemyChamp pg,
          enemy_hp = fmul rnd (fdiv rnd (gs_enemy_hp_pct g) 100) enemyHpMax,
          enemy_hp_max = enemyHpMax,
          enemy_mana_est = 200,
          enemy_level = gs_enemy_level g,
          enemy_q_cd_est = 0, enemy_w_cd_est = 0, enemy_e_cd_est = 0,
          enemy_r_cd_est = (if gs_enemy_level g \<ge> 6 then 0 else 80),
          enemy_flash_cd_est = 0,
          enemy_position = ''middle'',
          enemy_combat_power = fadd rnd 100 (fmul rnd (gs_enemy_level g) 15),
          my_minions = 6, enemy_minions = 6,
          wave_position = gs_wave_position g,
          is_cannon_wave = False,
          enemy_jg_last_seen = 999, enemy_jg_location = ''unknown'',
          ally_jg_position = ''unknown'',
          dragon_timer = 300, herald_timer = 840,
          my_tower_hp = 100, enemy_tower_hp = 100,
          game_time = gs_game_time g,
          phase = (if gs_game_time g \<ge> 1500 then ''late''
                   else if gs_game_time g \<ge> 840 then ''mid'' else ''early'')\<rparr>)"

text \<open>The arguments that \<open>runAnalysis\<close> passes to \<open>mctsRecommend\<close>.\<close>

definition runAnalysis :: "(number \<Rightarrow> number) \<Rightarrow> coach_page \<Rightarrow> recommend_request" where
  "runAnalysis rnd pg =
     \<lparr>req_state = lane_state rnd pg, req_iterations = iterations pg,
      req_enemy_model = enemyModel pg\<rparr>"

text \<open>
  The derivation rule of the data model, in its own words: early if the game time is below
  840, mid if it is below 1500, late otherwise.
\<close>

definition derived_phase :: "number \<Rightarrow> string" where
  "derived_phase t = (if t < 840 then ''early'' else if t < 1500 then ''mid'' else ''late'')"

text \<open>
  The state invariant of the data model on the fields of a lane state: health and mana
  between \<open>0\<close> and their maxima, every cooldown non-negative.
\<close>

definition state_invariant :: "LaneState \<Rightarrow> bool" where
  "state_invariant s \<longleftrightarrow>
     0 \<le> my_hp s \<and> my_hp s \<le> my_hp_max s \<and>
     0 \<le> my_mana s \<and> my_mana s \<le> my_mana_max s \<and>
     0 \<le> enemy_hp s \<and> enemy_hp s \<le> enemy_hp_max s \<and>
     0 \<le> my_q_cd s \<and> 0 \<le> my_w_cd s \<and> 0 \<le> my_e_cd s \<and> 0 \<le> my_r_cd s \<and>
     0 \<le> my_flash_cd s \<and> 0 \<le> my_summ2_cd s \<and>
     0 \<le> enemy_q_cd_est s \<and> 0 \<le> enemy_w_cd_est s \<and> 0 \<le> enemy_e_cd_est s \<and>
     0 \<le> enemy_r_cd_est s \<and> 0 \<le> enemy_flash_cd_est s"

section \<open>MCTS engine\<close>













section \<open>Auxiliary facts\<close>

subsection \<open>Strings and the percentage match\<close>

lemma includes_iff_sublist: "includes_str s t \<longleftrightarrow> sublist t s"
  by (induction s) (auto simp: sublist_Cons_right)

lemma match_pct_sound:
  "match_pct acc s = Some m \<Longrightarrow> list_all is_digit acc \<Longrightarrow> digits_then_pct (acc @ s)"
proof (induction s arbitrary: acc)
  case Nil
  then show ?case by simp
next
  case (Cons c cs)
  show ?case
  proof (cases "is_digit c")
    case True
    with Cons.prems have "match_pct (acc @ [c]) cs = Some m" "list_all is_digit (acc @ [c])"
      by simp_all
    from Cons.IH[OF this] show ?thesis by simp
  next
    case nd: False
    show ?thesis
    proof (cases "c = CHR ''%'' \<and> acc \<noteq> []")
      case True
      with Cons.prems
      have "acc @ c # cs = [] @ acc @ CHR ''%'' # cs \<and> acc \<noteq> [] \<and> list_all is_digit acc"
        by simp
      then show ?thesis unfolding digits_then_pct_def by blast
    next
      case False
      with nd Cons.prems have "match_pct [] cs = Some m" by auto
      from Cons.IH[OF this] have "digits_then_pct cs" by simp
      then obtain pre ds post
        where "cs = pre @ ds @ CHR ''%'' # post" "ds \<noteq> []" "list_all is_digit ds"
        unfolding digits_then_pct_def by blast
      then have "acc @ c # cs = (acc @ c # pre) @ ds @ CHR ''%'' # post \<and> ds \<noteq> [] \<and>
                 list_all is_digit ds"
        by simp
      then show ?thesis unfolding digits_then_pct_def by blast
    qed
  qed
qed

lemma match_pct_finds:
  "is_digit d \<Longrightarrow> match_pct acc (pre @ d # CHR ''%'' # post) \<noteq> None"
proof (induction pre arbitrary: acc)
  case Nil
  then show ?case by (simp add: is_digit_def)
next
  case (Cons c pre)
  then show ?case by simp
qed

lemma match_pct_complete: "digits_then_pct s \<Longrightarrow> match_pct [] s \<noteq> None"
proof -
  assume "digits_then_pct s"
  then obtain pre ds post where s: "s = pre @ ds @ CHR ''%'' # post" and ne: "ds \<noteq> []"
    and dg: "list_all is_digit ds"
    unfolding digits_then_pct_def by blast
  from ne obtain ds' d where ds: "ds = ds' @ [d]" by (meson rev_exhaust)
  with dg have "is_digit d" by simp
  moreover from s ds have "s = (pre @ ds') @ d # CHR ''%'' # post" by simp
  ultimately show ?thesis using match_pct_finds by metis
qed

lemma match_pct_examples:
  "match_pct [] ''HIGH (78%)'' = Some ''78''"
  "match_pct [] ''12 of 100 (045%) 7%'' = Some ''045''"
  "match_pct [] ''50 % or %5'' = None"
  by (simp_all add: is_digit_def)

lemma ConfidenceMeter_example:
  "ConfidenceMeter ''HIGH (78%)'' =
     \<lparr>shown_label = ''HIGH (78%)'', bar_color = ''bg-[#3fb950]'', bar_width_pct = 78\<rparr>"
  by (simp add: ConfidenceMeter_def pct_of_label_def parseInt_def is_digit_def digit_val_def
      color_of_pct_def)

subsection \<open>Rounding\<close>

lemma rounding_mono: "rounding rnd \<Longrightarrow> x \<le> y \<Longrightarrow> rnd x \<le> rnd y"
  by (simp add: rounding_def)

lemma rounding_nonneg: "rounding rnd \<Longrightarrow> 0 \<le> x \<Longrightarrow> 0 \<le> rnd x"
  using rounding_mono[of rnd 0 x] by (simp add: rounding_def)

lemma rounding_le_one: "rounding rnd \<Longrightarrow> x \<le> 1 \<Longrightarrow> rnd x \<le> 1"
  using rounding_mono[of rnd x 1] by (simp add: rounding_def)

lemma rounding_idem: "rounding rnd \<Longrightarrow> rnd (rnd x) = rnd x"
  by (simp add: rounding_def)

lemma rounding_exact: "rounding (\<lambda>x. x)"
  by (simp add: rounding_def)

lemma half_ulp_exact: "half_ulp_near_1e5 (\<lambda>x. x)"
  by (simp add: half_ulp_near_1e5_def)

lemma stat_max_nonneg:
  assumes r: "rounding rnd" and l: "1 \<le> lvl" and b: "0 \<le> base" and k: "0 \<le> k"
  shows "0 \<le> fadd rnd base (fmul rnd (fsub rnd lvl 1) k)"
proof -
  have "0 \<le> fsub rnd lvl 1" unfolding fsub_def using r l by (simp add: rounding_nonneg)
  then have "0 \<le> fmul rnd (fsub rnd lvl 1) k" unfolding fmul_def using r k
    by (simp add: rounding_nonneg)
  then show ?thesis unfolding fadd_def using r b by (simp add: rounding_nonneg)
qed

lemma pct_share_bounds:
  assumes r: "rounding rnd" and p0: "0 \<le> p" and p1: "p \<le> 100" and m: "0 \<le> rnd m"
  shows "0 \<le> fmul rnd (fdiv rnd p 100) (rnd m) \<and> fmul rnd (fdiv rnd p 100) (rnd m) \<le> rnd m"
proof -
  let ?q = "fdiv rnd p 100"
  have q0: "0 \<le> ?q" unfolding fdiv_def using r p0 by (simp add: rounding_nonneg)
  have q1: "?q \<le> 1" unfolding fdiv_def using r p1 by (simp add: rounding_le_one)
  have "0 \<le> ?q * rnd m" using q0 m by simp
  then have lo: "0 \<le> fmul rnd ?q (rnd m)" unfolding fmul_def using r
    by (simp add: rounding_nonneg)
  have "?q * rnd m \<le> 1 * rnd m" using q1 m by (rule mult_right_mono)
  then have "?q * rnd m \<le> rnd m" by simp
  then have "rnd (?q * rnd m) \<le> rnd (rnd m)" using r by (rule rounding_mono[rotated])
  then have hi: "fmul rnd ?q (rnd m) \<le> rnd m" unfolding fmul_def using r
    by (simp add: rounding_idem)
  from lo hi show ?thesis ..
qed

subsection \<open>Drafts of the Simulate page\<close>

lemma roles_set_champion: "map role (set_champion idx champ d) = map role d"
proof -
  have "map role (map (\<lambda>(i, p). if i = idx then p\<lparr>champion_id := champ\<rparr> else p) (enumerate n d))
        = map role d" for n
    by (induction d arbitrary: n) auto
  then show ?thesis by (simp add: set_champion_def)
qed

lemma length_set_champion: "length (set_champion idx champ d) = length d"
  by (simp add: set_champion_def)

lemma nth_set_champion:
  "i < length d \<Longrightarrow>
     set_champion idx champ d ! i = (if i = idx then (d ! i)\<lparr>champion_id := champ\<rparr> else d ! i)"
  by (simp add: set_champion_def nth_enumerate_eq)

lemma lower_ROLES: "map toLowerCase ROLES = [''top'', ''jungle'', ''mid'', ''adc'', ''support'']"
  by (simp add: ROLES_def toLowerCase_def lower_char_def)

lemma roles_initial_draft: "map role (initial_draft ds) = map toLowerCase ROLES"
  by (simp add: initial_draft_def ROLES_def enumerate_eq_zip upt_rec)

lemma reachable_roles:
  "reachable pg \<Longrightarrow>
     map role (blue pg) = map toLowerCase ROLES \<and> map role (red pg) = map toLowerCase ROLES"
proof (induction rule: reachable.induct)
  case reach_init
  show ?case by (simp add: SimulatePage_init_def roles_initial_draft)
next
  case (reach_blueTeam pg v)
  then show ?case by (simp add: setBlueTeam_def)
next
  case (reach_redTeam pg v)
  then show ?case by (simp add: setRedTeam_def)
next
  case (reach_updatePick pg sd idx champ)
  then show ?case by (cases sd) (simp_all add: updatePick_def roles_set_champion)
qed

lemma lower_roles_valid: "map role d = map toLowerCase ROLES \<Longrightarrow> draft_valid d"
proof -
  assume a: "map role d = map toLowerCase ROLES"
  have "length (map role d) = 5" using a lower_ROLES by simp
  moreover have "distinct (map role d)" using a lower_ROLES by simp
  ultimately show ?thesis by (simp add: draft_valid_def)
qed

lemma updatePick_example:
  "map champion_id (blue (updatePick Blue 2 ''Zed'' SimulatePage_init)) =
     [''Renekton'', ''LeeSin'', ''Zed'', ''Jinx'', ''Thresh''] \<and>
   map role (blue (updatePick Blue 2 ''Zed'' SimulatePage_init)) =
     [''top'', ''jungle'', ''mid'', ''adc'', ''support''] \<and>
   red (updatePick Blue 2 ''Zed'' SimulatePage_init) = red SimulatePage_init \<and>
   updatePick Red 7 ''Zed'' SimulatePage_init = SimulatePage_init"
  by (simp add: updatePick_def set_champion_def SimulatePage_init_def initial_draft_def
      DEFAULTS_blue_def DEFAULTS_red_def ROLES_def enumerate_eq_zip upt_rec toLowerCase_def
      lower_char_def)

subsection \<open>Suggestions\<close>

lemma second_in_take_filter: "P x \<Longrightarrow> x \<in> set (take 8 (filter P (a # x # rest)))"
  by simp


subsection \<open>The search loop\<close>









section \<open>The claims\<close>

text \<open>
  C7. The static enumeration tables are the closed sets of the data model: \<open>ROLES\<close> is
  Top, Jungle, Mid, ADC, Support; \<open>POSITIONS\<close> is under_tower, safe, middle, extended,
  river; \<open>WAVE_POSITIONS\<close> is frozen_near_me, pushing_to_me, middle, slow_push_to_them,
  crashed; \<open>SUMMONER_SPELLS\<close> has exactly 8 distinct members, Flash among them. No table
  has another member, and none lists a member twice.
\<close>

theorem static_tables_closed:
  "set ROLES = {''Top'', ''Jungle'', ''Mid'', ''ADC'', ''Support''} \<and>
   set POSITIONS = {''under_tower'', ''safe'', ''middle'', ''extended'', ''river''} \<and>
   set WAVE_POSITIONS =
     {''frozen_near_me'', ''pushing_to_me'', ''middle'', ''slow_push_to_them'', ''crashed''} \<and>
   card (set SUMMONER_SPELLS) = 8 \<and> length SUMMONER_SPELLS = 8 \<and>
   ''Flash'' \<in> set SUMMONER_SPELLS \<and>
   length ROLES = 5 \<and> distinct ROLES \<and>
   length POSITIONS = 5 \<and> distinct POSITIONS \<and>
   length WAVE_POSITIONS = 5 \<and> distinct WAVE_POSITIONS"
  by (simp add: ROLES_def POSITIONS_def WAVE_POSITIONS_def SUMMONER_SPELLS_def)

text \<open>
  C1. The phase that the coach page places in the lane state it sends is the phase
  derived from the game time by the fixed rule, for every game time (and whatever the
  rounding of the arithmetic): early below 840, mid from 840 to below 1500, late from
  1500 on.
\<close>

theorem phase_follows_game_time:
  "phase (req_state (runAnalysis rnd pg)) = derived_phase (gs_game_time (gs pg)) \<and>
   derived_phase t =
     (if t < 840 then ''early'' else if 840 \<le> t \<and> t < 1500 then ''mid'' else ''late'')"
  by (simp add: runAnalysis_def lane_state_def derived_phase_def Let_def)

text \<open>
  C5. The colour bucket of the confidence meter is fixed by thresholds on the percentage
  parsed from the label (red below 35, amber from 35 to 59, green from 60 on), and it is
  monotone: of two labels, the one with the larger or equal percentage never has the
  lower bucket.
\<close>

theorem confidence_bucket_monotone:
  "bar_color (ConfidenceMeter l) =
      (if pct_of_label l < 35 then ''bg-[#f85149]''
       else if pct_of_label l \<le> 59 then ''bg-[#d29922]'' else ''bg-[#3fb950]'') \<and>
   (pct_of_label l1 \<le> pct_of_label l2 \<longrightarrow>
      bucket_rank (bar_color (ConfidenceMeter l1))
        \<le> bucket_rank (bar_color (ConfidenceMeter l2)))"
  by (simp add: ConfidenceMeter_def color_of_pct_def bucket_rank_def Let_def)

theorem confidence_bucket_monotone_witness:
  "pct_of_label ''LOW (20%)'' \<le> pct_of_label ''HIGH (78%)'' \<and>
   bucket_rank (bar_color (ConfidenceMeter ''LOW (20%)''))
     \<le> bucket_rank (bar_color (ConfidenceMeter ''HIGH (78%)'')) \<and>
   bar_color (ConfidenceMeter ''LOW (20%)'') = ''bg-[#f85149]'' \<and>
   bar_color (ConfidenceMeter ''HIGH (78%)'') = ''bg-[#3fb950]''"
proof -
  have lo: "pct_of_label ''LOW (20%)'' = 20"
    by (simp add: pct_of_label_def parseInt_def is_digit_def digit_val_def)
  have hi: "pct_of_label ''HIGH (78%)'' = 78"
    by (simp add: pct_of_label_def parseInt_def is_digit_def digit_val_def)
  have le: "pct_of_label ''LOW (20%)'' \<le> pct_of_label ''HIGH (78%)''" by (simp add: lo hi)
  note m = confidence_bucket_monotone[of "''LOW (20%)''" "''LOW (20%)''" "''HIGH (78%)''"]
  from m le have rk: "bucket_rank (bar_color (ConfidenceMeter ''LOW (20%)''))
                        \<le> bucket_rank (bar_color (ConfidenceMeter ''HIGH (78%)''))"
    by blast
  from m lo have c1: "bar_color (ConfidenceMeter ''LOW (20%)'') = ''bg-[#f85149]''" by simp
  from confidence_bucket_monotone[of "''HIGH (78%)''" "''LOW (20%)''" "''HIGH (78%)''"] hi
  have c2: "bar_color (ConfidenceMeter ''HIGH (78%)'') = ''bg-[#3fb950]''" by simp
  from le rk c1 c2 show ?thesis by blast
qed

text \<open>
  C8. When the label contains no string of digits directly followed by a percent sign,
  the confidence meter still renders: the percentage falls back to exactly 50, the bar is
  50 percent wide and has the amber colour.
\<close>

theorem confidence_fallback:
  "\<not> digits_then_pct label \<Longrightarrow>
     pct_of_label label = 50 \<and>
     ConfidenceMeter label =
       \<lparr>shown_label = label, bar_color = ''bg-[#d29922]'', bar_width_pct = 50\<rparr> \<and>
     bucket_rank (bar_color (ConfidenceMeter label)) = 1"
proof -
  assume n: "\<not> digits_then_pct label"
  have "match_pct [] label = None"
  proof (cases "match_pct [] label")
    case None
    then show ?thesis .
  next
    case (Some m)
    from match_pct_sound[OF this] n show ?thesis by simp
  qed
  then show ?thesis
    by (simp add: pct_of_label_def ConfidenceMeter_def color_of_pct_def bucket_rank_def)
qed

theorem confidence_fallback_witness:
  "\<not> digits_then_pct ''HIGH'' \<and>
   ConfidenceMeter ''HIGH'' =
     \<lparr>shown_label = ''HIGH'', bar_color = ''bg-[#d29922]'', bar_width_pct = 50\<rparr>"
proof -
  have "match_pct [] ''HIGH'' = None" by (simp add: is_digit_def)
  with match_pct_complete[of "''HIGH''"] have h: "\<not> digits_then_pct ''HIGH''" by blast
  from confidence_fallback[OF h] h show ?thesis by simp
qed


text \<open>
  C6. For every configuration of the coach page whose three percentages lie between 0 and
  100 and whose two levels are at least 1, the lane state built by \<open>runAnalysis\<close>
  satisfies the state invariant: health and mana lie between 0 and their maxima, and every
  cooldown (the four abilities, flash, the second summoner spell and the enemy estimates)
  is non-negative. This holds under every rounding of the arithmetic.
\<close>

theorem lane_state_invariant:
  assumes r: "rounding rnd"
    and hp: "0 \<le> gs_my_hp_pct (gs pg)" "gs_my_hp_pct (gs pg) \<le> 100"
    and ehp: "0 \<le> gs_enemy_hp_pct (gs pg)" "gs_enemy_hp_pct (gs pg) \<le> 100"
    and mp: "0 \<le> gs_my_mana_pct (gs pg)" "gs_my_mana_pct (gs pg) \<le> 100"
    and lv: "1 \<le> gs_my_level (gs pg)" "1 \<le> gs_enemy_level (gs pg)"
  shows "state_invariant (req_state (runAnalysis rnd pg))"
proof -
  let ?g = "gs pg"
  let ?s = "lane_state rnd pg"
  have hm: "0 \<le> rnd (570 + fmul rnd (fsub rnd (gs_my_level ?g) 1) 90)"
    using stat_max_nonneg[OF r lv(1), of 570 90] by (simp add: fadd_def)
  have em: "0 \<le> rnd (523 + fmul rnd (fsub rnd (gs_enemy_level ?g) 1) 85)"
    using stat_max_nonneg[OF r lv(2), of 523 85] by (simp add: fadd_def)
  have mm: "0 \<le> rnd (418 + fmul rnd (fsub rnd (gs_my_level ?g) 1) 25)"
    using stat_max_nonneg[OF r lv(1), of 418 25] by (simp add: fadd_def)
  have a: "0 \<le> my_hp ?s \<and> my_hp ?s \<le> my_hp_max ?s"
    using pct_share_bounds[OF r hp hm] by (simp add: lane_state_def Let_def fadd_def)
  have b: "0 \<le> enemy_hp ?s \<and> enemy_hp ?s \<le> enemy_hp_max ?s"
    using pct_share_bounds[OF r ehp em] by (simp add: lane_state_def Let_def fadd_def)
  have c: "0 \<le> my_mana ?s \<and> my_mana ?s \<le> my_mana_max ?s"
    using pct_share_bounds[OF r mp mm] by (simp add: lane_state_def Let_def fadd_def)
  have d: "0 \<le> my_q_cd ?s \<and> 0 \<le> my_w_cd ?s \<and> 0 \<le> my_e_cd ?s \<and> 0 \<le> my_r_cd ?s \<and>
     0 \<le> my_flash_cd ?s \<and> 0 \<le> my_summ2_cd ?s \<and>
     0 \<le> enemy_q_cd_est ?s \<and> 0 \<le> enemy_w_cd_est ?s \<and> 0 \<le> enemy_e_cd_est ?s \<and>
     0 \<le> enemy_r_cd_est ?s \<and> 0 \<le> enemy_flash_cd_est ?s"
    by (simp add: lane_state_def Let_def)
  from a b c d show ?thesis by (simp add: state_invariant_def runAnalysis_def)
qed

theorem lane_state_invariant_witness:
  "rounding (\<lambda>x. x) \<and>
   gs_my_hp_pct (gs CoachPage_init) = 80 \<and> gs_enemy_hp_pct (gs CoachPage_init) = 75 \<and>
   gs_my_mana_pct (gs CoachPage_init) = 70 \<and>
   gs_my_level (gs CoachPage_init) = 3 \<and> gs_enemy_level (gs CoachPage_init) = 3 \<and>
   state_invariant (req_state (runAnalysis (\<lambda>x. x) CoachPage_init))"
proof -
  have v: "gs_my_hp_pct (gs CoachPage_init) = 80" "gs_enemy_hp_pct (gs CoachPage_init) = 75"
    "gs_my_mana_pct (gs CoachPage_init) = 70"
    "gs_my_level (gs CoachPage_init) = 3" "gs_enemy_level (gs CoachPage_init) = 3"
    by (simp_all add: CoachPage_init_def)
  have "state_invariant (req_state (runAnalysis (\<lambda>x. x) CoachPage_init))"
    by (rule lane_state_invariant[OF rounding_exact]) (simp_all add: v)
  with v rounding_exact show ?thesis by simp
qed

text \<open>
  C3. Every simulate request that the Simulate page sends has exactly 5 picks per side
  with pairwise distinct roles. Both drafts start with one pick per role of the 5-element
  role table, \<open>updatePick\<close> changes neither a role nor the number of picks of either side
  and leaves every pick other than the one at its index as it is, and so the property is
  an invariant of every reachable state of the page.
\<close>

theorem draft_invariant:
  "reachable pg \<Longrightarrow>
     draft_valid (blue_draft (run rnd u pg)) \<and> draft_valid (red_draft (run rnd u pg)) \<and>
     map role (blue_draft (run rnd u pg)) = map toLowerCase ROLES \<and>
     map role (red_draft (run rnd u pg)) = map toLowerCase ROLES \<and>
     map role (blue (updatePick sd idx champ pg)) = map role (blue pg) \<and>
     map role (red (updatePick sd idx champ pg)) = map role (red pg) \<and>
     length (blue (updatePick sd idx champ pg)) = length (blue pg) \<and>
     length (red (updatePick sd idx champ pg)) = length (red pg) \<and>
     (\<forall>i<5. i \<noteq> idx \<longrightarrow>
        blue (updatePick sd idx champ pg) ! i = blue pg ! i \<and>
        red (updatePick sd idx champ pg) ! i = red pg ! i) \<and>
     (sd = Blue \<longrightarrow> red (updatePick sd idx champ pg) = red pg) \<and>
     (sd = Red \<longrightarrow> blue (updatePick sd idx champ pg) = blue pg)"
proof -
  assume r: "reachable pg"
  note rl = reachable_roles[OF r]
  from rl have v: "draft_valid (blue pg)" "draft_valid (red pg)"
    by (simp_all add: lower_roles_valid)
  have k: "map role (blue (updatePick sd idx champ pg)) = map role (blue pg) \<and>
     map role (red (updatePick sd idx champ pg)) = map role (red pg) \<and>
     length (blue (updatePick sd idx champ pg)) = length (blue pg) \<and>
     length (red (updatePick sd idx champ pg)) = length (red pg)"
    by (cases sd) (simp_all add: updatePick_def roles_set_champion length_set_champion)
  have o: "\<forall>i<5. i \<noteq> idx \<longrightarrow>
        blue (updatePick sd idx champ pg) ! i = blue pg ! i \<and>
        red (updatePick sd idx champ pg) ! i = red pg ! i"
    using v by (cases sd) (simp_all add: updatePick_def nth_set_champion draft_valid_def)
  have t: "(sd = Blue \<longrightarrow> red (updatePick sd idx champ pg) = red pg) \<and>
           (sd = Red \<longrightarrow> blue (updatePick sd idx champ pg) = blue pg)"
    by (cases sd) (simp_all add: updatePick_def)
  from v k o t rl show ?thesis by (simp add: run_def)
qed

theorem draft_invariant_witness:
  "reachable (updatePick Red 4 ''Leona'' (updatePick Blue 2 ''Zed'' SimulatePage_init)) \<and>
   draft_valid (blue_draft (run (\<lambda>x. x) (1 / 2)
     (updatePick Red 4 ''Leona'' (updatePick Blue 2 ''Zed'' SimulatePage_init)))) \<and>
   draft_valid (red_draft (run (\<lambda>x. x) (1 / 2)
     (updatePick Red 4 ''Leona'' (updatePick Blue 2 ''Zed'' SimulatePage_init))))"
proof -
  have r: "reachable (updatePick Red 4 ''Leona'' (updatePick Blue 2 ''Zed'' SimulatePage_init))"
    by (intro reachable.intros)
  from draft_invariant[OF r, of "\<lambda>x. x" "1 / 2" Blue 0 "''Zed''"] r show ?thesis by blast
qed

text \<open>
  C10. Every seed that the Simulate page attaches to a request is a natural number below
  100000: it is the floor of the product of a \<open>Math.random()\<close> value with 100000, also
  when the product is rounded to a double. So the client exercises only a proper part of
  the 64-bit seed space: the 64-bit value 100000, for one, is never sent.
\<close>

theorem seed_below_100000:
  assumes r: "rounding rnd" and h: "half_ulp_near_1e5 rnd" and u: "is_random_draw u"
  shows "0 \<le> seed (run rnd u pg) \<and> seed (run rnd u pg) < 100000 \<and>
         seed (run rnd u pg) \<noteq> 100000 \<and> (100000::int) < 2 ^ 64"
proof -
  let ?x = "u * 100000"
  from u have x0: "0 \<le> ?x" and x1: "?x \<le> 100000 - 100000 / 2 ^ 53"
    by (simp_all add: is_random_draw_def algebra_simps)
  have lo: "0 \<le> rnd ?x" using r x0 by (rule rounding_nonneg)
  have hi: "rnd ?x < 100000"
  proof (cases "65536 \<le> ?x")
    case True
    moreover from x1 have "?x \<le> 131072" by simp
    ultimately have "\<bar>rnd ?x - ?x\<bar> \<le> 1 / 2 ^ 37" using h by (simp add: half_ulp_near_1e5_def)
    then have "rnd ?x \<le> ?x + 1 / 2 ^ 37" by linarith
    also have "\<dots> \<le> 100000 - 100000 / 2 ^ 53 + 1 / 2 ^ 37" using x1 by simp
    also have "\<dots> < 100000" by simp
    finally show ?thesis .
  next
    case False
    then have "rnd ?x \<le> rnd 65536" using r by (simp add: rounding_mono)
    moreover have "\<bar>rnd 65536 - 65536\<bar> \<le> 1 / 2 ^ 37"
      using h by (simp add: half_ulp_near_1e5_def)
    moreover have "(1::rat) / 2 ^ 37 < 1" by simp
    ultimately show ?thesis by linarith
  qed
  from lo hi have "0 \<le> \<lfloor>rnd ?x\<rfloor> \<and> \<lfloor>rnd ?x\<rfloor> < 100000" by (simp add: floor_less_iff)
  moreover from this have "\<lfloor>rnd ?x\<rfloor> \<noteq> 100000" by linarith
  ultimately show ?thesis by (simp add: run_def fmul_def)
qed

theorem seed_below_100000_witness:
  "rounding (\<lambda>x. x) \<and> half_ulp_near_1e5 (\<lambda>x. x) \<and> is_random_draw (1 - 1 / 2 ^ 53) \<and>
   0 \<le> seed (run (\<lambda>x. x) (1 - 1 / 2 ^ 53) SimulatePage_init) \<and>
   seed (run (\<lambda>x. x) (1 - 1 / 2 ^ 53) SimulatePage_init) < 100000"
proof -
  have d: "is_random_draw (1 - 1 / 2 ^ 53)" by (simp add: is_random_draw_def)
  from seed_below_100000[OF rounding_exact half_ulp_exact d, of SimulatePage_init]
    rounding_exact half_ulp_exact d
  show ?thesis by blast
qed

text \<open>
  C9. For every value and filter text, the suggestion list of the champion input has at
  most 8 entries, every entry is a member of the \<open>CHAMPIONS\<close> roster, and every entry
  contains the active filter text (the filter, or the value while the filter is empty) as
  a substring when both are lower-cased.
\<close>

theorem suggestions_bounded:
  "length (filtered val flt) \<le> 8 \<and>
   (\<forall>c \<in> set (filtered val flt).
      c \<in> set CHAMPIONS \<and>
      sublist (toLowerCase (if flt \<noteq> [] then flt else val)) (toLowerCase c))"
proof -
  have "set (filtered val flt) \<subseteq> set (filter (\<lambda>c. includes_str (toLowerCase c)
                           (toLowerCase (if flt \<noteq> [] then flt else val))) CHAMPIONS)"
    unfolding filtered_def by (rule set_take_subset)
  then show ?thesis by (auto simp: filtered_def includes_iff_sublist)
qed

theorem suggestions_bounded_witness:
  "''Ahri'' \<in> set (filtered ''Ka'' ''AH'') \<and> ''Ahri'' \<in> set CHAMPIONS \<and>
   sublist (toLowerCase ''AH'') (toLowerCase ''Ahri'') \<and>
   length (filtered ''Ka'' ''AH'') \<le> 8"
proof -
  have p: "includes_str (toLowerCase ''Ahri'') (toLowerCase (if ''AH'' \<noteq> [] then ''AH'' else ''Ka''))"
    by (simp add: toLowerCase_def lower_char_def)
  have m: "''Ahri'' \<in> set (filtered ''Ka'' ''AH'')"
    unfolding filtered_def CHAMPIONS_def
    by (rule second_in_take_filter
          [where P = "\<lambda>c. includes_str (toLowerCase c)
                             (toLowerCase (if ''AH'' \<noteq> [] then ''AH'' else ''Ka''))"
             and x = "''Ahri''", OF p])
  from suggestions_bounded[of "''Ka''" "''AH''"] m
  have "''Ahri'' \<in> set CHAMPIONS \<and>
        sublist (toLowerCase (if ''AH'' \<noteq> [] then ''AH'' else ''Ka'')) (toLowerCase ''Ahri'')"
    by blast
  moreover have "(if ''AH'' \<noteq> [] then ''AH'' else ''Ka'') = ''AH''" by simp
  ultimately have "''Ahri'' \<in> set CHAMPIONS \<and> sublist (toLowerCase ''AH'') (toLowerCase ''Ahri'')"
    by simp
  with m suggestions_bounded[of "''Ka''" "''AH''"] show ?thesis by blast
qed




end
